theory Spec2Isabelle
  imports Complex_Main "HOL-Library.Multiset" "HOL-Library.Sublist"
begin

section \<open>Semantic search over basketball clips (semantic\_search.py)\<close>

subsection \<open>Python values held by a clip record\<close>

text \<open>
  A clip is a row of the \<open>clips\<close> table as \<open>fetch_clips\<close> returns it: a dictionary from
  column names to values. The table declares INTEGER and TEXT columns only, so a value is
  \<open>None\<close>, an integer or a string.
\<close>

datatype pyval = VNone | VInt int | VStr string

type_synonym clip = "string \<rightharpoonup> pyval"

text \<open>Python truthiness: \<open>None\<close>, \<open>0\<close> and the empty string are falsy.\<close>

fun truthy :: "pyval \<Rightarrow> bool" where
  "truthy VNone = False"
| "truthy (VInt n) = (n \<noteq> 0)"
| "truthy (VStr s) = (s \<noteq> [])"

text \<open>\<open>a or b\<close> evaluates to \<open>a\<close> when \<open>a\<close> is truthy, and to \<open>b\<close> otherwise.\<close>

definition py_or :: "pyval \<Rightarrow> pyval \<Rightarrow> pyval" where
  "py_or a b = (if truthy a then a else b)"

text \<open>\<open>clip.get(key)\<close>: the value of the key, \<open>None\<close> when the key is missing.\<close>

definition clip_get :: "clip \<Rightarrow> string \<Rightarrow> pyval" where
  "clip_get c key = (case c key of None \<Rightarrow> VNone | Some v \<Rightarrow> v)"

text \<open>\<open>str\<close> of a Python integer: its decimal digits, with a minus sign when negative.\<close>

definition digit_char :: "nat \<Rightarrow> char" where
  "digit_char d = ''0123456789'' ! d"

fun str_nat :: "nat \<Rightarrow> string" where
  "str_nat n = (if n < 10 then [digit_char n] else str_nat (n div 10) @ [digit_char (n mod 10)])"

declare str_nat.simps [simp del]

definition str_int :: "int \<Rightarrow> string" where
  "str_int i = (if i < 0 then CHR ''-'' # str_nat (nat (- i)) else str_nat (nat i))"

text \<open>What an f-string writes for \<open>{v}\<close>.\<close>

fun py_str :: "pyval \<Rightarrow> string" where
  "py_str VNone = ''None''"
| "py_str (VInt n) = str_int n"
| "py_str (VStr s) = s"

text \<open>\<open>sep.join(parts)\<close>.\<close>

fun join :: "string \<Rightarrow> string list \<Rightarrow> string" where
  "join sep [] = []"
| "join sep [p] = p"
| "join sep (p # q # ps) = p @ sep @ join sep (q # ps)"

subsection \<open>The text projector: \<open>get_clip_text_representation\<close>\<close>

text \<open>
  One statement \<open>if v: parts.append(pre + str(v))\<close> of the source, for a value \<open>v\<close> and
  the literal text \<open>pre\<close> before it and \<open>suf\<close> after it in the f-string.
\<close>

definition append_if :: "pyval \<Rightarrow> string \<Rightarrow> string \<Rightarrow> string list \<Rightarrow> string list" where
  "append_if v pre suf parts = (if truthy v then parts @ [pre @ py_str v @ suf] else parts)"

definition get_clip_text_representation :: "clip \<Rightarrow> string" where
  "get_clip_text_representation c =
    (let parts = [];
         parts = append_if (clip_get c ''game_id'') ''Game '' '''' parts;
         parts = append_if (clip_get c ''opponent'') ''vs '' '''' parts;
         parts = append_if (clip_get c ''quarter'') ''Q'' '''' parts;
         parts = append_if (clip_get c ''possession'') ''Possession '' '''' parts;
         parts = append_if (clip_get c ''situation'') ''Situation: '' '''' parts;
         parts = append_if (clip_get c ''formation'') ''Formation: '' '''' parts;
         parts = append_if (clip_get c ''play_name'') ''Play: '' '''' parts;
         trigger_value = py_or (clip_get c ''play_trigger'') (clip_get c ''action_trigger'');
         parts = append_if trigger_value ''Trigger: '' '''' parts;
         parts = append_if (clip_get c ''action_types'') ''Actions: '' '''' parts;
         parts = append_if (clip_get c ''action_sequence'') ''Sequence: '' '''' parts;
         parts = append_if (clip_get c ''scout_coverage'') ''Scout Coverage: '' '''' parts;
         parts = append_if (clip_get c ''coverage'') ''Coverage: '' '''' parts;
         parts = append_if (clip_get c ''ball_screen'') ''Ball Screen: '' '''' parts;
         parts = append_if (clip_get c ''off_ball_screen'') ''Off Ball Screen: '' '''' parts;
         parts = append_if (clip_get c ''help_rotation'') ''Help: '' '''' parts;
         parts = append_if (clip_get c ''disruption'') ''Disruption: '' '''' parts;
         parts = append_if (clip_get c ''breakdown'') ''Breakdown: '' '''' parts;
         parts = append_if (clip_get c ''result'') ''Result: '' '''' parts;
         parts = append_if (clip_get c ''shooter'') ''Shooter: '' '''' parts;
         parts = append_if (clip_get c ''shot_location'') ''Shot Location: '' '''' parts;
         parts = append_if (clip_get c ''shot_result'') ''Shot Result: '' '''' parts;
         parts = append_if (clip_get c ''points'') '''' '' points'' parts;
         parts = append_if (clip_get c ''rebound'') ''Rebound: '' '''' parts;
         parts = append_if (clip_get c ''contest'') ''Contest: '' '''' parts;
         parts = append_if (clip_get c ''paint_touch'') ''Paint Touch: '' '''' parts;
         parts = append_if (clip_get c ''notes'') ''Notes: '' '''' parts
     in join '' | '' parts)"

text \<open>
  The projector as a table, for comparison with the code: the fields in their fixed order,
  each with the value read from the clip and the literal text around it. The trigger reads
  \<open>play_trigger\<close> and falls back to the legacy column \<open>action_trigger\<close>.
\<close>

definition projected_fields :: "clip \<Rightarrow> (pyval \<times> string \<times> string) list" where
  "projected_fields c =
    [(clip_get c ''game_id'', ''Game '', ''''),
     (clip_get c ''opponent'', ''vs '', ''''),
     (clip_get c ''quarter'', ''Q'', ''''),
     (clip_get c ''possession'', ''Possession '', ''''),
     (clip_get c ''situation'', ''Situation: '', ''''),
     (clip_get c ''formation'', ''Formation: '', ''''),
     (clip_get c ''play_name'', ''Play: '', ''''),
     (py_or (clip_get c ''play_trigger'') (clip_get c ''action_trigger''), ''Trigger: '', ''''),
     (clip_get c ''action_types'', ''Actions: '', ''''),
     (clip_get c ''action_sequence'', ''Sequence: '', ''''),
     (clip_get c ''scout_coverage'', ''Scout Coverage: '', ''''),
     (clip_get c ''coverage'', ''Coverage: '', ''''),
     (clip_get c ''ball_screen'', ''Ball Screen: '', ''''),
     (clip_get c ''off_ball_screen'', ''Off Ball Screen: '', ''''),
     (clip_get c ''help_rotation'', ''Help: '', ''''),
     (clip_get c ''disruption'', ''Disruption: '', ''''),
     (clip_get c ''breakdown'', ''Breakdown: '', ''''),
     (clip_get c ''result'', ''Result: '', ''''),
     (clip_get c ''shooter'', ''Shooter: '', ''''),
     (clip_get c ''shot_location'', ''Shot Location: '', ''''),
     (clip_get c ''shot_result'', ''Shot Result: '', ''''),
     (clip_get c ''points'', '''', '' points''),
     (clip_get c ''rebound'', ''Rebound: '', ''''),
     (clip_get c ''contest'', ''Contest: '', ''''),
     (clip_get c ''paint_touch'', ''Paint Touch: '', ''''),
     (clip_get c ''notes'', ''Notes: '', '''')]"

text \<open>A field gives one segment when its value is truthy, and none otherwise.\<close>

fun segment :: "pyval \<times> string \<times> string \<Rightarrow> string list" where
  "segment (v, pre, suf) = (if truthy v then [pre @ py_str v @ suf] else [])"

subsection \<open>Errors\<close>

text \<open>
  The exceptions the code can raise, as values. \<open>JSONDecodeError\<close> and
  \<open>UnicodeDecodeError\<close> are subclasses of Python's \<open>ValueError\<close>; \<open>StoreError\<close> and
  \<open>ProviderError\<close> stand for whatever the database driver and the embedding client raise.
\<close>

datatype error =
    ImportError string
  | ValueError string
  | JSONDecodeError
  | UnicodeDecodeError
  | OSError
  | AttributeError
  | KeyError string
  | IndexError
  | StoreError string
  | ProviderError string


subsection \<open>Floats and the numpy library\<close>

text \<open>
  A vector is a list of numbers. A \<open>score\<close> is a value of numpy's \<open>float64\<close>: a finite
  number, an infinity or \<open>nan\<close>. The two zeros of the format are not told apart; the only
  divisor the code forms is a product of norms, which is never the negative zero.
\<close>

type_synonym vector = "real list"

datatype score = Num real | PInf | NInf | NaN

text \<open>
  numpy is a library outside the repository, and what it computes in floating point
  (with rounding, overflow and underflow, in an order of summation of its own choosing)
  is taken as a parameter: \<open>np_dot\<close> is \<open>np.dot\<close> of two arrays of one length, as the
  float that enters the division; \<open>np_norm\<close> is \<open>np.linalg.norm\<close>; \<open>np_round\<close> turns the
  exact result of one multiplication or division into the float nearest to it, or into
  an infinity when it overflows.
\<close>

record numpy =
  np_dot :: "vector \<Rightarrow> vector \<Rightarrow> score"
  np_norm :: "vector \<Rightarrow> score"
  np_round :: "real \<Rightarrow> score"

text \<open>
  The operators \<open>*\<close> and \<open>/\<close> on two numpy floats, as IEEE 754 has them: a product or
  quotient with \<open>nan\<close> is \<open>nan\<close>, so are \<open>inf * 0\<close>, \<open>inf / inf\<close> and \<open>0 / 0\<close>; a nonzero
  number divided by zero is an infinity. Division by zero gives a warning, no exception.
\<close>

fun np_multiply :: "numpy \<Rightarrow> score \<Rightarrow> score \<Rightarrow> score" where
  "np_multiply np NaN b = NaN"
| "np_multiply np a NaN = NaN"
| "np_multiply np (Num a) (Num b) = (if a = 0 \<or> b = 0 then Num 0 else np_round np (a * b))"
| "np_multiply np (Num a) PInf = (if a = 0 then NaN else if 0 < a then PInf else NInf)"
| "np_multiply np (Num a) NInf = (if a = 0 then NaN else if 0 < a then NInf else PInf)"
| "np_multiply np PInf (Num b) = (if b = 0 then NaN else if 0 < b then PInf else NInf)"
| "np_multiply np NInf (Num b) = (if b = 0 then NaN else if 0 < b then NInf else PInf)"
| "np_multiply np PInf PInf = PInf"
| "np_multiply np PInf NInf = NInf"
| "np_multiply np NInf PInf = NInf"
| "np_multiply np NInf NInf = PInf"

fun np_divide :: "numpy \<Rightarrow> score \<Rightarrow> score \<Rightarrow> score" where
  "np_divide np NaN b = NaN"
| "np_divide np a NaN = NaN"
| "np_divide np (Num a) (Num b) =
    (if b = 0 then (if a = 0 then NaN else if 0 < a then PInf else NInf)
     else if a = 0 then Num 0 else np_round np (a / b))"
| "np_divide np (Num a) PInf = Num 0"
| "np_divide np (Num a) NInf = Num 0"
| "np_divide np PInf (Num b) = (if 0 \<le> b then PInf else NInf)"
| "np_divide np NInf (Num b) = (if 0 \<le> b then NInf else PInf)"
| "np_divide np PInf PInf = NaN"
| "np_divide np PInf NInf = NaN"
| "np_divide np NInf PInf = NaN"
| "np_divide np NInf NInf = NaN"

subsection \<open>Cosine similarity\<close>

text \<open>
  \<open>np.dot(vec1, vec2) / (np.linalg.norm(vec1) * np.linalg.norm(vec2))\<close>. \<open>np.dot\<close> of two
  one-dimensional arrays of different lengths raises \<open>ValueError\<close>.
\<close>

definition cosine :: "numpy \<Rightarrow> vector \<Rightarrow> vector \<Rightarrow> score" where
  "cosine np vec1 vec2 =
    np_divide np (np_dot np vec1 vec2) (np_multiply np (np_norm np vec1) (np_norm np vec2))"

definition cosine_similarity :: "numpy \<Rightarrow> vector \<Rightarrow> vector \<Rightarrow> error + score" where
  "cosine_similarity np vec1 vec2 =
    (if length vec1 \<noteq> length vec2 then Inl (ValueError ''shapes not aligned'')
     else Inr (cosine np vec1 vec2))"

text \<open>The comparison \<open><\<close> of two floats: every comparison with \<open>nan\<close> is false.\<close>

fun score_lt :: "score \<Rightarrow> score \<Rightarrow> bool" where
  "score_lt NaN b = False"
| "score_lt a NaN = False"
| "score_lt (Num a) (Num b) = (a < b)"
| "score_lt a NInf = False"
| "score_lt NInf b = True"
| "score_lt PInf b = False"
| "score_lt (Num a) PInf = True"

subsection \<open>Dictionaries\<close>

text \<open>
  A Python dictionary keeps its keys in insertion order: an association list with
  distinct keys. Assigning to a key that is present replaces its value in place.
\<close>

fun dict_set :: "('k \<times> 'v) list \<Rightarrow> 'k \<Rightarrow> 'v \<Rightarrow> ('k \<times> 'v) list" where
  "dict_set [] k v = [(k, v)]"
| "dict_set ((k', v') # d) k v = (if k' = k then (k, v) # d else (k', v') # dict_set d k v)"

type_synonym embeddings = "(pyval \<times> vector) list"

subsection \<open>The world outside the module\<close>

text \<open>
  The content of \<open>clip_embeddings.json\<close>, when it can be read as JSON: any JSON value. An
  array is given by its number of elements, since the code only tests whether it is
  empty. The members of an object are arrays of numbers (what \<open>save_embeddings\<close>
  writes); objects with other members are outside the model.
\<close>

datatype json_doc =
    JNull
  | JBool bool
  | JNumber real
  | JString string
  | JArray nat
  | JObject "(string \<times> vector) list"

text \<open>
  The file is absent (\<open>None\<close> below), or cannot be opened, or holds bytes that are not
  text in the platform's encoding, or text that \<open>json.load\<close> rejects, or a JSON document.
\<close>

datatype cache_file = Unreadable | Undecodable | Unparseable | Document json_doc

text \<open>
  \<open>clips_table\<close> is what \<open>fetch_clips()\<close> gives: the rows, or the exception of the
  database. \<open>provider\<close> is the embedding model behind \<open>client.embeddings.create\<close>, and
  \<open>provider_calls\<close> records the inputs of the calls made so far. \<open>is_cloud\<close> is
  \<open>cloud_config.is_cloud()\<close>; \<open>auth_available\<close>, \<open>semantic_search_available\<close> and
  \<open>openai_available\<close> say whether the imports of \<open>auth\<close>, \<open>semantic_search\<close> and \<open>openai\<close>
  succeeded.
\<close>

record world =
  semantic_search_available :: bool
  openai_available :: bool
  auth_available :: bool
  is_cloud :: bool
  api_key :: "string option"
  embeddings_file :: "cache_file option"
  clips_table :: "error + clip list"
  provider :: "string list \<Rightarrow> error + vector list"
  provider_calls :: "string list list"
  numpy :: numpy

definition fetch_clips :: "world \<Rightarrow> error + clip list" where
  "fetch_clips w = clips_table w"

text \<open>\<open>if not api_key\<close>: the variable is unset or empty.\<close>

fun env_truthy :: "string option \<Rightarrow> bool" where
  "env_truthy None = False"
| "env_truthy (Some s) = (s \<noteq> [])"

definition embeddings_create :: "string list \<Rightarrow> world \<Rightarrow> (error + vector list) \<times> world" where
  "embeddings_create texts w =
    (provider w texts, w\<lparr>provider_calls := provider_calls w @ [texts]\<rparr>)"

subsection \<open>Generating the embeddings of all clips\<close>

text \<open>The first loop: \<open>clip['id']\<close> raises \<open>KeyError\<close> on a row without the key.\<close>

fun prepare_batch :: "clip list \<Rightarrow> error + (pyval list \<times> string list)" where
  "prepare_batch [] = Inr ([], [])"
| "prepare_batch (c # cs) =
    (case c ''id'' of
       None \<Rightarrow> Inl (KeyError ''id'')
     | Some clip_id \<Rightarrow>
        (case prepare_batch cs of
           Inl e \<Rightarrow> Inl e
         | Inr (clip_ids, texts_to_embed) \<Rightarrow>
             Inr (clip_id # clip_ids, get_clip_text_representation c # texts_to_embed)))"

text \<open>
  The second loop, over \<open>enumerate(response.data)\<close>: \<open>clip_ids[i]\<close> raises \<open>IndexError\<close>
  when the provider returned more vectors than there are clips.
\<close>

fun collect_embeddings :: "pyval list \<Rightarrow> vector list \<Rightarrow> embeddings \<Rightarrow> error + embeddings" where
  "collect_embeddings clip_ids [] acc = Inr acc"
| "collect_embeddings [] (e # es) acc = Inl IndexError"
| "collect_embeddings (clip_id # clip_ids) (e # es) acc =
     collect_embeddings clip_ids es (dict_set acc clip_id e)"

definition generate_embeddings_for_all_clips :: "world \<Rightarrow> (error + embeddings) \<times> world" where
  "generate_embeddings_for_all_clips w =
    (if \<not> openai_available w then (Inl (ImportError ''OpenAI library not available''), w)
     else if \<not> env_truthy (api_key w)
       then (Inl (ValueError ''OPENAI_API_KEY environment variable not set''), w)
     else case fetch_clips w of
       Inl e \<Rightarrow> (Inl e, w)
     | Inr clips \<Rightarrow>
        (case prepare_batch clips of
           Inl e \<Rightarrow> (Inl e, w)
         | Inr (clip_ids, texts_to_embed) \<Rightarrow>
            if texts_to_embed = [] then (Inr [], w)
            else (case embeddings_create texts_to_embed w of
                    (Inl e, w') \<Rightarrow> (Inl e, w')
                  | (Inr data, w') \<Rightarrow>
                     (case collect_embeddings clip_ids data [] of
                        Inl e \<Rightarrow> (Inl e, w')
                      | Inr embeddings \<Rightarrow> (Inr embeddings, w')))))"

subsection \<open>Saving and loading the cache\<close>

text \<open>
  \<open>json.dump\<close> writes a dictionary as a JSON object and turns every key into a string:
  a string stays, an integer becomes its digits, \<open>None\<close> becomes \<open>null\<close>. Opening the
  file with mode \<open>'w'\<close> replaces what was there. Failures of the file system while
  writing are not modelled.
\<close>

fun json_key :: "pyval \<Rightarrow> string" where
  "json_key (VStr s) = s"
| "json_key (VInt n) = str_int n"
| "json_key VNone = ''null''"

definition json_dump :: "embeddings \<Rightarrow> (string \<times> vector) list" where
  "json_dump d = map (\<lambda>(k, v). (json_key k, v)) d"

definition save_embeddings :: "embeddings \<Rightarrow> world \<Rightarrow> world" where
  "save_embeddings embeddings w =
    w\<lparr>embeddings_file := Some (Document (JObject (json_dump embeddings)))\<rparr>"

text \<open>
  What \<open>json.load\<close> returns: \<open>None\<close> for \<open>null\<close>, a boolean, a number, a string, a list
  (given by its length) or a dictionary. The dictionary is built member by member, so of
  two members with the same name the later value wins.
\<close>

datatype pyobj =
    PNone
  | PBool bool
  | PNumber real
  | PStr string
  | PList nat
  | PDict embeddings

fun json_load :: "json_doc \<Rightarrow> pyobj" where
  "json_load JNull = PNone"
| "json_load (JBool b) = PBool b"
| "json_load (JNumber x) = PNumber x"
| "json_load (JString s) = PStr s"
| "json_load (JArray n) = PList n"
| "json_load (JObject members) = PDict (foldl (\<lambda>d (k, v). dict_set d (VStr k) v) [] members)"

text \<open>
  \<open>load_embeddings\<close> returns \<open>None\<close> when the file does not exist. Otherwise \<open>open\<close> raises
  \<open>OSError\<close> on a file it cannot open, reading raises \<open>UnicodeDecodeError\<close> on bytes that
  are not text, and \<open>json.load\<close> raises \<open>JSONDecodeError\<close> on text that is not JSON.
\<close>

definition load_embeddings :: "world \<Rightarrow> error + pyobj" where
  "load_embeddings w =
    (case embeddings_file w of
       None \<Rightarrow> Inr PNone
     | Some Unreadable \<Rightarrow> Inl OSError
     | Some Undecodable \<Rightarrow> Inl UnicodeDecodeError
     | Some Unparseable \<Rightarrow> Inl JSONDecodeError
     | Some (Document doc) \<Rightarrow> Inr (json_load doc))"

text \<open>The truth value of a loaded object, as \<open>if not embeddings\<close> tests it.\<close>

fun obj_truthy :: "pyobj \<Rightarrow> bool" where
  "obj_truthy PNone = False"
| "obj_truthy (PBool b) = b"
| "obj_truthy (PNumber x) = (x \<noteq> 0)"
| "obj_truthy (PStr s) = (s \<noteq> [])"
| "obj_truthy (PList n) = (n \<noteq> 0)"
| "obj_truthy (PDict d) = (d \<noteq> [])"

subsection \<open>Ranking\<close>

text \<open>The loop over \<open>embeddings.items()\<close>: the first failing comparison ends it.\<close>

fun similarities :: "numpy \<Rightarrow> vector \<Rightarrow> embeddings \<Rightarrow> error + (pyval \<times> score) list" where
  "similarities np query_embedding [] = Inr []"
| "similarities np query_embedding ((clip_id, clip_embedding) # rest) =
    (case cosine_similarity np query_embedding clip_embedding of
       Inl e \<Rightarrow> Inl e
     | Inr similarity \<Rightarrow>
        (case similarities np query_embedding rest of
           Inl e \<Rightarrow> Inl e
         | Inr sims \<Rightarrow> Inr ((clip_id, similarity) # sims)))"

text \<open>
  \<open>similarities.sort(key=lambda x: x[1], reverse=True)\<close>: a stable sort, highest key
  first, that compares keys with \<open><\<close> only. On keys without \<open>nan\<close> the result of a stable
  sort is unique, and this insertion sort computes it; for lists of at most two entries
  it is also what the interpreter's sort returns when a key is \<open>nan\<close>. On longer lists
  with a \<open>nan\<close> key the interpreter's sort returns some arrangement of the entries, not
  always this one.
\<close>

fun insert_desc :: "'a \<times> score \<Rightarrow> ('a \<times> score) list \<Rightarrow> ('a \<times> score) list" where
  "insert_desc x [] = [x]"
| "insert_desc x (y # ys) =
    (if score_lt (snd x) (snd y) then y # insert_desc x ys else x # y # ys)"

definition sort_by_similarity :: "('a \<times> score) list \<Rightarrow> ('a \<times> score) list" where
  "sort_by_similarity xs = foldr insert_desc xs []"

text \<open>The slice \<open>xs[:k]\<close>; a negative \<open>k\<close> counts from the end.\<close>

definition slice_to :: "int \<Rightarrow> 'a list \<Rightarrow> 'a list" where
  "slice_to k xs = (if 0 \<le> k then take (nat k) xs else take (nat (int (length xs) + k)) xs)"

definition top_results :: "numpy \<Rightarrow> vector \<Rightarrow> embeddings \<Rightarrow> int \<Rightarrow> error + (pyval \<times> score) list" where
  "top_results np query_embedding embeddings top_k =
    (case similarities np query_embedding embeddings of
       Inl e \<Rightarrow> Inl e
     | Inr sims \<Rightarrow> Inr (slice_to top_k (sort_by_similarity sims)))"

subsection \<open>Joining the ranking with the store\<close>

text \<open>\<open>{clip['id']: clip for clip in clips}\<close>.\<close>

fun clips_by_id :: "clip list \<Rightarrow> (pyval \<times> clip) list \<Rightarrow> error + (pyval \<times> clip) list" where
  "clips_by_id [] acc = Inr acc"
| "clips_by_id (c # cs) acc =
    (case c ''id'' of
       None \<Rightarrow> Inl (KeyError ''id'')
     | Some clip_id \<Rightarrow> clips_by_id cs (dict_set acc clip_id c))"

text \<open>
  A result is the copy of the clip with the key \<open>similarity_score\<close> added; no column of the
  table has that name, so the score is kept beside the clip.
\<close>

record ranked_result =
  clip_data :: clip
  similarity_score :: score

fun results :: "(pyval \<times> score) list \<Rightarrow> (pyval \<times> clip) list \<Rightarrow> ranked_result list" where
  "results [] by_id = []"
| "results ((clip_id, similarity) # rest) by_id =
    (case map_of by_id clip_id of
       None \<Rightarrow> results rest by_id
     | Some c \<Rightarrow> \<lparr>clip_data = c, similarity_score = similarity\<rparr> # results rest by_id)"

subsection \<open>The query orchestrator: \<open>semantic_search\<close>\<close>

text \<open>Lines 188 and 189: generate the embeddings of all clips and save them.\<close>

definition generate_and_save :: "world \<Rightarrow> (error + embeddings) \<times> world" where
  "generate_and_save w =
    (case generate_embeddings_for_all_clips w of
       (Inl e, w') \<Rightarrow> (Inl e, w')
     | (Inr embeddings, w') \<Rightarrow> (Inr embeddings, save_embeddings embeddings w'))"

text \<open>
  Lines 185 to 189: \<open>if not embeddings\<close> holds for \<open>None\<close> and for every other falsy
  object, the empty dictionary among them; what was loaded is kept otherwise.
\<close>

definition ensure_embeddings :: "pyobj \<Rightarrow> world \<Rightarrow> (error + pyobj) \<times> world" where
  "ensure_embeddings loaded w =
    (if \<not> obj_truthy loaded
     then (case generate_and_save w of
             (Inl e, w') \<Rightarrow> (Inl e, w')
           | (Inr embeddings, w') \<Rightarrow> (Inr (PDict embeddings), w'))
     else (Inr loaded, w))"

text \<open>
  Lines 191 to 220: embed the query, rank the cache against it, join the ranking with
  the clips now in the store. \<open>response.data[0]\<close> raises \<open>IndexError\<close> on an empty answer;
  \<open>embeddings.items()\<close> raises \<open>AttributeError\<close> on an object that is not a dictionary.
\<close>

definition answer_query :: "string \<Rightarrow> int \<Rightarrow> pyobj \<Rightarrow> world \<Rightarrow> (error + ranked_result list) \<times> world" where
  "answer_query query top_k embeddings w =
    (case embeddings_create [query] w of
       (Inl e, w2) \<Rightarrow> (Inl e, w2)
     | (Inr [], w2) \<Rightarrow> (Inl IndexError, w2)
     | (Inr (query_embedding # _), w2) \<Rightarrow>
        (case embeddings of
           PDict d \<Rightarrow>
            (case top_results (numpy w2) query_embedding d top_k of
               Inl e \<Rightarrow> (Inl e, w2)
             | Inr ranked \<Rightarrow>
                (case fetch_clips w2 of
                   Inl e \<Rightarrow> (Inl e, w2)
                 | Inr clips \<Rightarrow>
                    (case clips_by_id clips [] of
                       Inl e \<Rightarrow> (Inl e, w2)
                     | Inr by_id \<Rightarrow> (Inr (results ranked by_id), w2))))
         | _ \<Rightarrow> (Inl AttributeError, w2)))"

definition semantic_search :: "string \<Rightarrow> int \<Rightarrow> world \<Rightarrow> (error + ranked_result list) \<times> world" where
  "semantic_search query top_k w =
    (if \<not> openai_available w then (Inl (ImportError ''OpenAI library not available''), w)
     else if \<not> env_truthy (api_key w)
       then (Inl (ValueError ''OPENAI_API_KEY environment variable not set''), w)
     else case load_embeddings w of
       Inl e \<Rightarrow> (Inl e, w)
     | Inr loaded \<Rightarrow>
        (case ensure_embeddings loaded w of
           (Inl e, w1) \<Rightarrow> (Inl e, w1)
         | (Inr embeddings, w1) \<Rightarrow> answer_query query top_k embeddings w1))"

subsection \<open>\<open>rebuild_embeddings\<close>\<close>

text \<open>
  The report dictionary: \<open>{'success': True, 'count': n, ...}\<close> or
  \<open>{'success': False, 'error': str(e)}\<close>, the error standing for its message.
\<close>

datatype rebuild_report = Success nat | Failure error

definition rebuild_embeddings :: "world \<Rightarrow> rebuild_report \<times> world" where
  "rebuild_embeddings w =
    (case generate_embeddings_for_all_clips w of
       (Inl e, w') \<Rightarrow> (Failure e, w')
     | (Inr embeddings, w') \<Rightarrow> (Success (length embeddings), save_embeddings embeddings w'))"

subsection \<open>The HTTP endpoint \<open>api_semantic_search\<close> (media\_server.py, auth.py)\<close>












subsection \<open>Notions used to state the properties\<close>

text \<open>The place of a key in the iteration order of a dictionary.\<close>

definition position :: "'a list \<Rightarrow> 'a \<Rightarrow> nat" where
  "position xs a = length (takeWhile (\<lambda>y. y \<noteq> a) xs)"

text \<open>
  Entry \<open>a\<close> ranks strictly before entry \<open>b\<close>: its score is higher, or the scores are equal
  and its key comes first in the corpus.
\<close>

definition ranks_before :: "'a list \<Rightarrow> 'a \<times> score \<Rightarrow> 'a \<times> score \<Rightarrow> bool" where
  "ranks_before keys a b =
    (score_lt (snd b) (snd a) \<or> (snd a = snd b \<and> position keys (fst a) < position keys (fst b)))"

text \<open>Every corpus entry with the score the code computes for it.\<close>

definition cosine_scores :: "numpy \<Rightarrow> vector \<Rightarrow> embeddings \<Rightarrow> (pyval \<times> score) list" where
  "cosine_scores np q corpus = map (\<lambda>(i, v). (i, cosine np q v)) corpus"

fun is_str :: "pyval \<Rightarrow> bool" where
  "is_str (VStr s) = True"
| "is_str v = False"

subsection \<open>Example data\<close>

text \<open>
  Small inputs on which the theorems below are tried. \<open>exact_numpy\<close> computes without
  rounding; numpy does the same on the vectors used here, whose components are 0 and 1.
\<close>

definition exact_numpy :: numpy where
  "exact_numpy =
    \<lparr>np_dot = (\<lambda>xs ys. Num (sum_list (map (\<lambda>(x, y). x * y) (zip xs ys)))),
     np_norm = (\<lambda>xs. Num (sqrt (sum_list (map (\<lambda>x. x * x) xs)))),
     np_round = Num\<rparr>"

definition corpus0 :: embeddings where
  "corpus0 = [(VStr ''a'', [0, 1]), (VStr ''b'', [1, 0]), (VStr ''c'', [1, 0])]"

definition corpus_zero :: embeddings where
  "corpus_zero = [(VStr ''a'', [0, 0]), (VStr ''b'', [1, 0])]"

definition clip_c1 :: clip where
  "clip_c1 = [''id'' \<mapsto> VStr ''c1'', ''opponent'' \<mapsto> VStr ''Duke'', ''result'' \<mapsto> VStr ''Make'']"

definition provider0 :: "string list \<Rightarrow> error + vector list" where
  "provider0 texts = Inr (map (\<lambda>t. [1, 0]) texts)"

definition world0 :: world where
  "world0 = \<lparr>semantic_search_available = True, openai_available = True,
             auth_available = True, is_cloud = False,
             api_key = Some ''sk-test'',
             embeddings_file = Some (Document (JObject [(''c1'', [1, 0]), (''gone'', [1, 0])])),
             clips_table = Inr [clip_c1], provider = provider0, provider_calls = [],
             numpy = exact_numpy\<rparr>"


section \<open>Properties of the text projector\<close>

lemma append_if_segment: "append_if v pre suf parts = parts @ segment (v, pre, suf)"
  by (simp add: append_if_def)

text \<open>
  C4, as the code has it: the projected text is the segments of the fields whose value is
  truthy, in the fixed order of the table, joined with \<open>" | "\<close>. A segment is the field's
  literal text and the string form of its value: \<open>Label: value\<close> for most fields, but
  \<open>Game v\<close>, \<open>vs v\<close>, \<open>Qv\<close>, \<open>Possession v\<close> and \<open>v points\<close> for the game id, opponent,
  quarter, possession and points; the trigger is \<open>play_trigger\<close>, or \<open>action_trigger\<close>
  when that is falsy.
\<close>

theorem projection_is_table:
  "get_clip_text_representation c = join '' | '' (concat (map segment (projected_fields c)))"
  unfolding get_clip_text_representation_def projected_fields_def Let_def append_if_segment
  by (simp only: list.map concat.simps append_Nil append_Nil2 append_assoc)

theorem projection_is_table_witness:
  "get_clip_text_representation clip_c1 = ''vs Duke | Result: Make''"
proof -
  have "join '' | '' (concat (map segment (projected_fields clip_c1))) = ''vs Duke | Result: Make''"
    by (simp add: projected_fields_def clip_c1_def clip_get_def py_or_def)
  with projection_is_table [of clip_c1] show ?thesis by simp
qed

text \<open>
  C4 as stated fails: a clip with game id 3 projects to \<open>Game 3\<close>, which does not end in
  \<open>: 3\<close> as a \<open>Label: value\<close> segment would.
\<close>

theorem projection_game_id_not_label_value:
  "get_clip_text_representation [''game_id'' \<mapsto> VInt 3] = ''Game 3''
   \<and> \<not> suffix ('': '' @ py_str (VInt 3)) (get_clip_text_representation [''game_id'' \<mapsto> VInt 3])"
  by code_simp

lemma projection_table:
  "get_clip_text_representation c = join '' | '' (concat (map segment (projected_fields c)))"
  unfolding get_clip_text_representation_def projected_fields_def Let_def append_if_segment
  by (simp only: list.map concat.simps append_Nil append_Nil2 append_assoc)

lemma segment_falsy_cong:
  "v = v' \<or> (\<not> truthy v \<and> \<not> truthy v') \<Longrightarrow> segment (v, pre, suf) = segment (v', pre, suf)"
  by auto

lemma py_or_falsy_cong:
  assumes "a = a' \<or> (\<not> truthy a \<and> \<not> truthy a')" "b = b' \<or> (\<not> truthy b \<and> \<not> truthy b')"
  shows "py_or a b = py_or a' b' \<or> (\<not> truthy (py_or a b) \<and> \<not> truthy (py_or a' b'))"
  using assms by (auto simp: py_or_def)

lemma projection_falsy_cong:
  assumes "\<And>key. clip_get c key = clip_get c' key
             \<or> (\<not> truthy (clip_get c key) \<and> \<not> truthy (clip_get c' key))"
  shows "get_clip_text_representation c = get_clip_text_representation c'"
proof -
  have s: "segment (clip_get c key, pre, suf) = segment (clip_get c' key, pre, suf)" for key pre suf
    by (rule segment_falsy_cong) (rule assms)
  have t: "segment (py_or (clip_get c k1) (clip_get c k2), pre, suf)
         = segment (py_or (clip_get c' k1) (clip_get c' k2), pre, suf)" for k1 k2 pre suf
    by (rule segment_falsy_cong) (rule py_or_falsy_cong [OF assms assms])
  have "concat (map segment (projected_fields c)) = concat (map segment (projected_fields c'))"
    unfolding projected_fields_def by (simp only: list.map concat.simps s t)
  then show ?thesis by (simp only: projection_table)
qed

text \<open>
  C9: a field whose value is falsy (\<open>None\<close>, \<open>0\<close>, the empty string) gives the same
  projected text as the clip without that field.
\<close>

theorem falsy_field_omitted:
  "\<not> truthy v \<Longrightarrow>
     get_clip_text_representation (c(k \<mapsto> v)) = get_clip_text_representation (c(k := None))"
  by (rule projection_falsy_cong) (simp add: clip_get_def)

theorem falsy_field_omitted_witness:
  "\<not> truthy (VInt 0)
   \<and> get_clip_text_representation [''opponent'' \<mapsto> VStr ''Duke'', ''points'' \<mapsto> VInt 0]
     = get_clip_text_representation [''opponent'' \<mapsto> VStr ''Duke'']
   \<and> get_clip_text_representation [''opponent'' \<mapsto> VStr ''Duke''] = ''vs Duke''"
proof -
  have h: "\<not> truthy (VInt 0)" by simp
  have e: "get_clip_text_representation [''opponent'' \<mapsto> VStr ''Duke''] = ''vs Duke''"
    by code_simp
  from falsy_field_omitted [OF h, of "[''opponent'' \<mapsto> VStr ''Duke'']" "''points''"] h e
  show ?thesis by simp
qed

section \<open>Properties of the similarity score\<close>

lemma np_multiply_zero_right: "np_multiply np a (Num 0) = Num 0 \<or> np_multiply np a (Num 0) = NaN"
  by (cases a) simp_all

lemma np_multiply_zero_left: "np_multiply np (Num 0) b = Num 0 \<or> np_multiply np (Num 0) b = NaN"
  by (cases b) simp_all

lemma np_divide_by_zero:
  "np_divide np a (Num 0) = NaN \<or> np_divide np a (Num 0) = PInf \<or> np_divide np a (Num 0) = NInf"
  by (cases a) simp_all

lemma np_divide_by_nan: "np_divide np a NaN = NaN"
  by (cases a) simp_all

lemma np_divide_zero_by_zero: "a = Num 0 \<or> a = NaN \<Longrightarrow> np_divide np a (Num 0) = NaN"
  by auto

lemma cosine_zero_norm:
  assumes "np_norm np q = Num 0 \<or> np_norm np v = Num 0"
  shows "(cosine np q v = NaN \<or> cosine np q v = PInf \<or> cosine np q v = NInf)
       \<and> (np_dot np q v = Num 0 \<or> np_dot np q v = NaN \<longrightarrow> cosine np q v = NaN)"
proof -
  let ?d = "np_multiply np (np_norm np q) (np_norm np v)"
  have "?d = Num 0 \<or> ?d = NaN"
    using assms np_multiply_zero_left [of np "np_norm np v"] np_multiply_zero_right [of np "np_norm np q"]
    by auto
  then show ?thesis
    using np_divide_by_zero [of np "np_dot np q v"] np_divide_zero_by_zero [of "np_dot np q v" np]
    by (auto simp: cosine_def np_divide_by_nan)
qed

text \<open>
  C1, as the code has it: for two vectors of one length the computation does not raise.
  When the norm computed for either vector is zero, the score is never 0 nor any other
  finite number: it is \<open>nan\<close> or an infinity, and it is \<open>nan\<close> whenever the computed dot
  product is zero or \<open>nan\<close>. This holds whatever numpy's dot product, norm and rounding
  return.
\<close>

theorem zero_norm_score:
  assumes "length q = length v" and "np_norm np q = Num 0 \<or> np_norm np v = Num 0"
  shows "(cosine_similarity np q v = Inr NaN \<or> cosine_similarity np q v = Inr PInf
            \<or> cosine_similarity np q v = Inr NInf)
       \<and> (np_dot np q v = Num 0 \<or> np_dot np q v = NaN \<longrightarrow> cosine_similarity np q v = Inr NaN)"
  using assms(1) cosine_zero_norm [OF assms(2)] by (simp add: cosine_similarity_def)

lemma exact_norm: "np_norm exact_numpy xs = Num (sqrt (sum_list (map (\<lambda>x. x * x) xs)))"
  and exact_dot: "np_dot exact_numpy xs ys = Num (sum_list (map (\<lambda>(x, y). x * y) (zip xs ys)))"
  and exact_round: "np_round exact_numpy x = Num x"
  by (simp_all add: exact_numpy_def)

theorem zero_norm_score_witness:
  "length [1, 0 :: real] = length [0, 0 :: real]
   \<and> np_norm exact_numpy [0, 0] = Num 0
   \<and> np_dot exact_numpy [1, 0] [0, 0] = Num 0
   \<and> cosine_similarity exact_numpy [1, 0] [0, 0] = Inr NaN"
proof -
  have l: "length [1, 0 :: real] = length [0, 0 :: real]" by simp
  have n: "np_norm exact_numpy [0, 0] = Num 0" by (simp add: exact_norm)
  have d: "np_dot exact_numpy [1, 0] [0, 0] = Num 0" by (simp add: exact_dot)
  from zero_norm_score [OF l disjI2 [OF n]] l n d show ?thesis by simp
qed

text \<open>C1 as stated fails: the score of a zero corpus vector is \<open>nan\<close>, not 0.\<close>

theorem cosine_zero_vector_is_nan:
  "cosine_similarity exact_numpy [1, 0] [0, 0] = Inr NaN
   \<and> cosine_similarity exact_numpy [1, 0] [0, 0] \<noteq> Inr (Num 0)"
  by (simp add: cosine_similarity_def cosine_def exact_norm exact_dot exact_round)

section \<open>Properties of the ranking\<close>

lemma score_lt_irrefl: "\<not> score_lt a a"
  by (cases a) simp_all

lemma score_lt_asym: "score_lt a b \<Longrightarrow> \<not> score_lt b a"
  by (cases a; cases b) simp_all

lemma score_lt_trans_neg:
  "a \<noteq> NaN \<Longrightarrow> b \<noteq> NaN \<Longrightarrow> c \<noteq> NaN \<Longrightarrow>
     \<not> score_lt a b \<Longrightarrow> \<not> score_lt b c \<Longrightarrow> \<not> score_lt a c"
  by (cases a; cases b; cases c) simp_all

lemma score_total: "a \<noteq> NaN \<Longrightarrow> b \<noteq> NaN \<Longrightarrow> score_lt a b \<or> a = b \<or> score_lt b a"
  by (cases a; cases b) auto

lemma ranks_before_not_lt: "ranks_before keys a b \<Longrightarrow> \<not> score_lt (snd a) (snd b)"
  by (auto simp: ranks_before_def score_lt_irrefl dest: score_lt_asym)

lemma set_insert_desc: "set (insert_desc x ys) = insert x (set ys)"
  by (induction ys) auto

lemma mset_insert_desc: "mset (insert_desc x ys) = add_mset x (mset ys)"
  by (induction ys) auto

lemma mset_sort_by_similarity: "mset (sort_by_similarity xs) = mset xs"
  by (induction xs) (simp_all add: sort_by_similarity_def mset_insert_desc)

lemma set_sort_by_similarity: "set (sort_by_similarity xs) = set xs"
  using mset_sort_by_similarity [of xs] by (metis set_mset_mset)

lemma length_sort_by_similarity: "length (sort_by_similarity xs) = length xs"
  using mset_sort_by_similarity [of xs] by (metis size_mset)

text \<open>
  Inserting into a list ordered by \<open>R\<close> keeps it ordered, when \<open>R\<close> never puts a lower
  score first and relates the new entry to every old one in the direction the
  comparison of their scores gives.
\<close>

lemma sorted_insert_desc:
  assumes "sorted_wrt R ys"
    and "\<And>a b. R a b \<Longrightarrow> \<not> score_lt (snd a) (snd b)"
    and "\<And>y. y \<in> set ys \<Longrightarrow> score_lt (snd x) (snd y) \<Longrightarrow> R y x"
    and "\<And>y. y \<in> set ys \<Longrightarrow> \<not> score_lt (snd x) (snd y) \<Longrightarrow> R x y"
    and "snd x \<noteq> NaN" and "\<And>y. y \<in> set ys \<Longrightarrow> snd y \<noteq> NaN"
  shows "sorted_wrt R (insert_desc x ys)"
  using assms(1,3,4,6)
proof (induction ys)
  case Nil
  show ?case by simp
next
  case (Cons y ys)
  show ?case
  proof (cases "score_lt (snd x) (snd y)")
    case True
    have "sorted_wrt R (insert_desc x ys)"
      using Cons by (intro Cons.IH) auto
    moreover have "R y x" using Cons.prems(2) True by simp
    moreover have "\<forall>z\<in>set ys. R y z" using Cons.prems(1) by simp
    ultimately show ?thesis using True by (simp add: set_insert_desc)
  next
    case False
    have "R x z" if "z \<in> set (y # ys)" for z
    proof (cases "z = y")
      case True
      then show ?thesis using Cons.prems(3) False by simp
    next
      case neq: False
      then have zin: "z \<in> set ys" using that by simp
      then have "R y z" using Cons.prems(1) by simp
      then have "\<not> score_lt (snd y) (snd z)" by (rule assms(2))
      then have "\<not> score_lt (snd x) (snd z)"
        using False assms(5) Cons.prems(4) zin score_lt_trans_neg [of "snd x" "snd y" "snd z"]
        by simp
      then show ?thesis using Cons.prems(3) zin by simp
    qed
    then show ?thesis using False Cons.prems(1) by simp
  qed
qed

lemma position_Cons: "position (k # keys) a = (if k = a then 0 else Suc (position keys a))"
  by (simp add: position_def)

lemma sorted_sort_by_similarity:
  assumes "distinct (map fst xs)" and "\<forall>p\<in>set xs. snd p \<noteq> NaN"
  shows "sorted_wrt (ranks_before (map fst xs)) (sort_by_similarity xs)"
  using assms
proof (induction xs)
  case Nil
  show ?case by (simp add: sort_by_similarity_def)
next
  case (Cons x xs)
  let ?R = "ranks_before (map fst (x # xs))"
  have fresh: "fst y \<noteq> fst x" if "y \<in> set xs" for y
    using Cons.prems(1) that by (metis distinct.simps(2) image_eqI list.simps(9) set_map)
  have IH: "sorted_wrt (ranks_before (map fst xs)) (sort_by_similarity xs)"
    using Cons by simp
  have tail: "sorted_wrt ?R (sort_by_similarity xs)"
  proof (rule sorted_wrt_mono_rel [OF _ IH])
    fix a b
    assume "a \<in> set (sort_by_similarity xs)" "b \<in> set (sort_by_similarity xs)"
      and "ranks_before (map fst xs) a b"
    then show "?R a b"
      using fresh [of a] fresh [of b]
      by (auto simp: ranks_before_def position_Cons set_sort_by_similarity)
  qed
  have "sorted_wrt ?R (insert_desc x (sort_by_similarity xs))"
  proof (rule sorted_insert_desc [OF tail])
    show "\<not> score_lt (snd a) (snd b)" if "?R a b" for a b
      using that by (rule ranks_before_not_lt)
    show "?R y x" if "y \<in> set (sort_by_similarity xs)" "score_lt (snd x) (snd y)" for y
      using that by (simp add: ranks_before_def)
    show "?R x y" if "y \<in> set (sort_by_similarity xs)" "\<not> score_lt (snd x) (snd y)" for y
    proof -
      have yin: "y \<in> set xs" using that(1) by (simp add: set_sort_by_similarity)
      then have "snd y \<noteq> NaN" "snd x \<noteq> NaN" using Cons.prems(2) by auto
      then have "snd x = snd y \<or> score_lt (snd y) (snd x)"
        using that(2) score_total [of "snd x" "snd y"] by auto
      then show ?thesis
        using fresh [OF yin] by (auto simp: ranks_before_def position_Cons)
    qed
    show "snd x \<noteq> NaN" using Cons.prems(2) by simp
    show "snd y \<noteq> NaN" if "y \<in> set (sort_by_similarity xs)" for y
      using that Cons.prems(2) by (simp add: set_sort_by_similarity)
  qed
  then show ?case by (simp add: sort_by_similarity_def)
qed

lemma similarities_same_length:
  assumes "\<forall>(i, v)\<in>set corpus. length v = length q"
  shows "similarities np q corpus = Inr (cosine_scores np q corpus)"
  using assms
proof (induction corpus)
  case Nil
  show ?case by (simp add: cosine_scores_def)
next
  case (Cons p corpus)
  obtain i v where p: "p = (i, v)" by (cases p)
  have "cosine_similarity np q v = Inr (cosine np q v)"
    using Cons.prems p by (simp add: cosine_similarity_def)
  moreover have "similarities np q corpus = Inr (cosine_scores np q corpus)"
    using Cons by simp
  ultimately show ?case by (simp add: p cosine_scores_def)
qed

lemma cosine_scores_keys: "map fst (cosine_scores np q corpus) = map fst corpus"
  by (induction corpus) (auto simp: cosine_scores_def)

text \<open>
  C5, as the code has it: when every corpus vector has the query's length and \<open>top_k\<close> is
  not negative, the ranking step raises nothing and returns \<open>min top_k |corpus|\<close> pairs of
  an identifier and the score computed for it: the head of an arrangement of the whole
  corpus, and the whole corpus when \<open>top_k\<close> is at least its size. When no computed score
  is \<open>nan\<close>, that arrangement is ordered strictly by \<open>ranks_before\<close>: higher score first,
  equal scores in the corpus's iteration order.
\<close>

theorem ranking_top_k:
  assumes "\<forall>(i, v)\<in>set corpus. length v = length q"
    and "distinct (map fst corpus)"
    and "0 \<le> top_k"
  shows "\<exists>ranked rest.
           top_results np q corpus top_k = Inr ranked
         \<and> length ranked = min (nat top_k) (length corpus)
         \<and> mset (ranked @ rest) = mset (cosine_scores np q corpus)
         \<and> (int (length corpus) \<le> top_k \<longrightarrow> rest = [])
         \<and> ((\<forall>p\<in>set (cosine_scores np q corpus). snd p \<noteq> NaN) \<longrightarrow>
              sorted_wrt (ranks_before (map fst corpus)) (ranked @ rest))"
proof -
  let ?all = "sort_by_similarity (cosine_scores np q corpus)"
  let ?ranked = "take (nat top_k) ?all" and ?rest = "drop (nat top_k) ?all"
  have len: "length ?all = length corpus"
    by (simp add: length_sort_by_similarity cosine_scores_def)
  have "top_results np q corpus top_k = Inr ?ranked"
    using assms(3) by (simp add: top_results_def similarities_same_length [OF assms(1)] slice_to_def)
  moreover have "length ?ranked = min (nat top_k) (length corpus)"
    using len by simp
  moreover have "mset (?ranked @ ?rest) = mset (cosine_scores np q corpus)"
    by (simp add: mset_sort_by_similarity)
  moreover have "int (length corpus) \<le> top_k \<longrightarrow> ?rest = []"
    using len by auto
  moreover have "(\<forall>p\<in>set (cosine_scores np q corpus). snd p \<noteq> NaN) \<longrightarrow>
      sorted_wrt (ranks_before (map fst corpus)) (?ranked @ ?rest)"
    using sorted_sort_by_similarity [of "cosine_scores np q corpus"] assms(2)
    by (simp add: cosine_scores_keys)
  ultimately show ?thesis by blast
qed

lemma cosine_scores_corpus0: "cosine_scores exact_numpy [1, 0] corpus0
    = [(VStr ''a'', Num 0), (VStr ''b'', Num 1), (VStr ''c'', Num 1)]"
  by (simp add: cosine_scores_def corpus0_def cosine_def exact_norm exact_dot exact_round)

theorem ranking_top_k_witness:
  "list_all (\<lambda>(i, v). length v = length [1, 0 :: real]) corpus0
   \<and> distinct (map fst corpus0) \<and> (0::int) \<le> 2
   \<and> list_all (\<lambda>p. snd p \<noteq> NaN) (cosine_scores exact_numpy [1, 0] corpus0)
   \<and> top_results exact_numpy [1, 0] corpus0 2 = Inr [(VStr ''b'', Num 1), (VStr ''c'', Num 1)]
   \<and> (\<exists>ranked rest.
           top_results exact_numpy [1, 0] corpus0 2 = Inr ranked
         \<and> length ranked = min (nat 2) (length corpus0)
         \<and> mset (ranked @ rest) = mset (cosine_scores exact_numpy [1, 0] corpus0)
         \<and> sorted_wrt (ranks_before (map fst corpus0)) (ranked @ rest))"
proof -
  have h1: "\<forall>(i, v)\<in>set corpus0. length v = length [1, 0 :: real]"
    by (simp add: corpus0_def)
  have h2: "distinct (map fst corpus0)" by (simp add: corpus0_def)
  have h3: "(0::int) \<le> 2" by simp
  have sc: "cosine_scores exact_numpy [1, 0] corpus0
      = [(VStr ''a'', Num 0), (VStr ''b'', Num 1), (VStr ''c'', Num 1)]"
    by (simp add: cosine_scores_def corpus0_def cosine_def exact_norm exact_dot exact_round)
  have h4: "\<forall>p\<in>set (cosine_scores exact_numpy [1, 0] corpus0). snd p \<noteq> NaN"
    by (simp add: sc)
  have la1: "list_all (\<lambda>(i, v). length v = length [1, 0 :: real]) corpus0"
    using h1 by (simp add: list_all_iff)
  have la2: "list_all (\<lambda>p. snd p \<noteq> NaN) (cosine_scores exact_numpy [1, 0] corpus0)"
    using h4 by (simp add: list_all_iff)
  have ev: "top_results exact_numpy [1, 0] corpus0 2 = Inr [(VStr ''b'', Num 1), (VStr ''c'', Num 1)]"
    by (simp add: top_results_def corpus0_def cosine_similarity_def cosine_def
          exact_norm exact_dot exact_round sort_by_similarity_def slice_to_def)
  from ranking_top_k [OF h1 h2 h3, of exact_numpy] h4 la1 h2 h3 la2 ev show ?thesis by blast
qed

text \<open>
  C5 as stated fails for a corpus with a zero vector: its score is \<open>nan\<close>, and the list
  returned is not in descending score order.
\<close>

theorem ranking_with_zero_vector_unordered:
  "top_results exact_numpy [1, 0] corpus_zero 2 = Inr [(VStr ''a'', NaN), (VStr ''b'', Num 1)]
   \<and> \<not> sorted_wrt (ranks_before (map fst corpus_zero)) [(VStr ''a'', NaN), (VStr ''b'', Num 1)]"
  by (simp add: top_results_def corpus_zero_def cosine_similarity_def cosine_def
        exact_norm exact_dot exact_round sort_by_similarity_def slice_to_def ranks_before_def)

section \<open>Properties of the rebuild\<close>

lemma generate_keeps_file:
  "embeddings_file (snd (generate_embeddings_for_all_clips w)) = embeddings_file w"
  by (simp add: generate_embeddings_for_all_clips_def embeddings_create_def
        split: sum.splits prod.splits)

lemma rebuild_failure_keeps_file:
  "fst (rebuild_embeddings w) = Failure e' \<Longrightarrow>
     embeddings_file (snd (rebuild_embeddings w)) = embeddings_file w"
  using generate_keeps_file [of w]
  by (auto simp: rebuild_embeddings_def split: sum.splits prod.splits)

text \<open>
  C6: when the corpus fetch fails, or the provider call fails, \<open>rebuild_embeddings\<close> reports
  a failure (with that error, when the provider is configured) and the cache file is what
  it was before.
\<close>

theorem failed_rebuild_keeps_cache:
  assumes "fetch_clips w = Inl e
         \<or> (\<exists>clips clip_ids texts. fetch_clips w = Inr clips
               \<and> prepare_batch clips = Inr (clip_ids, texts) \<and> texts \<noteq> []
               \<and> provider w texts = Inl e)"
  shows "(\<exists>e'. fst (rebuild_embeddings w) = Failure e')
       \<and> embeddings_file (snd (rebuild_embeddings w)) = embeddings_file w
       \<and> (openai_available w \<and> env_truthy (api_key w) \<longrightarrow> fst (rebuild_embeddings w) = Failure e)"
proof -
  have gen: "\<exists>e'. fst (generate_embeddings_for_all_clips w) = Inl e'
                 \<and> (openai_available w \<and> env_truthy (api_key w) \<longrightarrow> e' = e)"
    using assms
    by (auto simp: generate_embeddings_for_all_clips_def embeddings_create_def)
  then obtain e' where e': "fst (generate_embeddings_for_all_clips w) = Inl e'"
    and cfg: "openai_available w \<and> env_truthy (api_key w) \<longrightarrow> e' = e" by blast
  have f: "fst (rebuild_embeddings w) = Failure e'"
    using e' by (cases "generate_embeddings_for_all_clips w") (simp add: rebuild_embeddings_def)
  from f rebuild_failure_keeps_file [OF f] cfg show ?thesis by auto
qed

theorem failed_rebuild_keeps_cache_witness:
  "fetch_clips (world0\<lparr>clips_table := Inl (StoreError ''database is locked'')\<rparr>)
      = Inl (StoreError ''database is locked'')
   \<and> fst (rebuild_embeddings (world0\<lparr>clips_table := Inl (StoreError ''database is locked'')\<rparr>))
      = Failure (StoreError ''database is locked'')
   \<and> embeddings_file (snd (rebuild_embeddings (world0\<lparr>clips_table := Inl (StoreError ''database is locked'')\<rparr>)))
      = Some (Document (JObject [(''c1'', [1, 0]), (''gone'', [1, 0])]))"
proof -
  let ?w = "world0\<lparr>clips_table := Inl (StoreError ''database is locked'')\<rparr>"
  have h: "fetch_clips ?w = Inl (StoreError ''database is locked'')"
    by (simp add: fetch_clips_def)
  have c: "openai_available ?w \<and> env_truthy (api_key ?w)" by (simp add: world0_def)
  have f: "embeddings_file ?w = Some (Document (JObject [(''c1'', [1, 0]), (''gone'', [1, 0])]))"
    by (simp add: world0_def)
  from failed_rebuild_keeps_cache [of ?w "StoreError ''database is locked''", OF disjI1 [OF h]] c f h
  show ?thesis by simp
qed

section \<open>Properties of the cache\<close>

lemma dict_set_fresh: "k \<notin> fst ` set d \<Longrightarrow> dict_set d k v = d @ [(k, v)]"
  by (induction d) auto

lemma json_load_dump_append:
  assumes "distinct (map fst m)" and "\<forall>k\<in>set (map fst m). is_str k"
    and "fst ` set acc \<inter> fst ` set m = {}"
  shows "foldl (\<lambda>d (k, v). dict_set d (VStr k) v) acc (json_dump m) = acc @ m"
  using assms
proof (induction m arbitrary: acc)
  case Nil
  show ?case by (simp add: json_dump_def)
next
  case (Cons p m)
  obtain k v where p: "p = (k, v)" by (cases p)
  obtain s where k: "k = VStr s" using Cons.prems(2) p by (cases k) auto
  have fresh: "VStr s \<notin> fst ` set acc" using Cons.prems(3) p k by auto
  have disj: "fst ` set (acc @ [(k, v)]) \<inter> fst ` set m = {}"
    using Cons.prems(1,3) p by auto
  have "foldl (\<lambda>d (k, v). dict_set d (VStr k) v) (acc @ [(k, v)]) (json_dump m) = (acc @ [(k, v)]) @ m"
    using Cons.prems(1,2) disj by (intro Cons.IH) auto
  then show ?case
    using fresh by (simp add: json_dump_def p k dict_set_fresh)
qed

lemma json_load_dump:
  "distinct (map fst m) \<Longrightarrow> \<forall>k\<in>set (map fst m). is_str k \<Longrightarrow>
     json_load (JObject (json_dump m)) = PDict m"
  using json_load_dump_append [of m "[]"] by simp

text \<open>
  C7: for a dictionary \<open>m\<close> from string identifiers to vectors, \<open>load_embeddings\<close> after
  \<open>save_embeddings m\<close> returns \<open>m\<close>: the same keys in the same order with the same vectors.
  (The keys of a dictionary are distinct.)
\<close>

theorem save_load_roundtrip:
  assumes "distinct (map fst m)" and "\<forall>k\<in>set (map fst m). is_str k"
  shows "load_embeddings (save_embeddings m w) = Inr (PDict m)"
  using json_load_dump [OF assms] by (simp add: load_embeddings_def save_embeddings_def)

theorem save_load_roundtrip_witness:
  "distinct (map fst corpus0) \<and> list_all is_str (map fst corpus0)
   \<and> embeddings_file (save_embeddings corpus0 world0)
       = Some (Document (JObject [(''a'', [0, 1]), (''b'', [1, 0]), (''c'', [1, 0])]))
   \<and> load_embeddings (save_embeddings corpus0 world0) = Inr (PDict corpus0)"
proof -
  have h1: "distinct (map fst corpus0)" by (simp add: corpus0_def)
  have h2: "\<forall>k\<in>set (map fst corpus0). is_str k" by (simp add: corpus0_def)
  have f: "embeddings_file (save_embeddings corpus0 world0)
       = Some (Document (JObject [(''a'', [0, 1]), (''b'', [1, 0]), (''c'', [1, 0])]))"
    by (simp add: save_embeddings_def json_dump_def corpus0_def)
  have la: "list_all is_str (map fst corpus0)" by (simp add: corpus0_def)
  from save_load_roundtrip [OF h1 h2, of world0] h1 la f show ?thesis by simp
qed

text \<open>A key that is not a string does not come back: \<open>json.dump\<close> writes it as a string.\<close>

lemma integer_key_comes_back_as_string:
  "load_embeddings (save_embeddings [(VInt 7, [1])] world0) = Inr (PDict [(VStr ''7'', [1])])"
  by (simp add: load_embeddings_def save_embeddings_def json_dump_def str_int_def
        str_nat.simps digit_char_def)

section \<open>Properties of the join with the store\<close>

lemma map_of_dict_set: "map_of (dict_set d k v) = (map_of d)(k \<mapsto> v)"
  by (induction d) (auto simp: fun_eq_iff)

lemma clips_by_id_lookup:
  assumes "clips_by_id clips acc = Inr by_id"
  shows "map_of by_id i = Some c \<Longrightarrow> (c \<in> set clips \<and> c ''id'' = Some i) \<or> map_of acc i = Some c"
    and "map_of by_id i = None \<longleftrightarrow> (\<forall>c\<in>set clips. c ''id'' \<noteq> Some i) \<and> map_of acc i = None"
  using assms
proof (induction clips arbitrary: acc)
  case Nil
  { case 1 then show ?case by simp }
  { case 2 then show ?case by simp }
next
  case (Cons a clips)
  { case 1
    then obtain j where j: "a ''id'' = Some j" and rest: "clips_by_id clips (dict_set acc j a) = Inr by_id"
      by (auto split: option.splits)
    from Cons(1) [OF 1(1) rest] show ?case
      using j by (auto simp: map_of_dict_set split: if_splits) }
  { case 2
    then obtain j where j: "a ''id'' = Some j" and rest: "clips_by_id clips (dict_set acc j a) = Inr by_id"
      by (auto split: option.splits)
    from Cons(2) [OF rest] show ?case
      using j by (auto simp: map_of_dict_set split: if_splits) }
qed

lemma clips_by_id_total:
  "\<forall>c\<in>set clips. c ''id'' \<noteq> None \<Longrightarrow> \<exists>by_id. clips_by_id clips acc = Inr by_id"
  by (induction clips arbitrary: acc) (auto split: option.splits)

lemma results_join:
  assumes "clips_by_id clips [] = Inr by_id"
  shows "(\<forall>r\<in>set (results ranked by_id). clip_data r \<in> set clips)
       \<and> map (\<lambda>r. (clip_data r ''id'', similarity_score r)) (results ranked by_id)
         = map (\<lambda>(i, s). (Some i, s)) (filter (\<lambda>(i, s). \<exists>c\<in>set clips. c ''id'' = Some i) ranked)"
proof (induction ranked)
  case Nil
  show ?case by simp
next
  case (Cons p ranked)
  obtain i s where p: "p = (i, s)" by (cases p)
  show ?case
  proof (cases "map_of by_id i")
    case None
    then have "\<forall>c\<in>set clips. c ''id'' \<noteq> Some i"
      using clips_by_id_lookup(2) [OF assms, of i] by simp
    then show ?thesis using Cons None by (simp add: p)
  next
    case (Some c)
    then have "c \<in> set clips \<and> c ''id'' = Some i"
      using clips_by_id_lookup(1) [OF assms, of i c] by simp
    then show ?thesis using Cons Some by (auto simp: p)
  qed
qed

lemma answer_query_world:
  "snd (answer_query q k emb w) = w\<lparr>provider_calls := provider_calls w @ [[q]]\<rparr>"
  by (simp add: answer_query_def embeddings_create_def split: sum.splits list.splits pyobj.splits)

lemma generate_keeps_table:
  "clips_table (snd (generate_embeddings_for_all_clips w)) = clips_table w"
  by (simp add: generate_embeddings_for_all_clips_def embeddings_create_def
        split: sum.splits prod.splits)

lemma generate_and_save_keeps_table: "clips_table (snd (generate_and_save w)) = clips_table w"
  using generate_keeps_table [of w]
  by (cases "generate_embeddings_for_all_clips w")
     (auto simp: generate_and_save_def save_embeddings_def split: sum.splits)

lemma ensure_keeps_table: "clips_table (snd (ensure_embeddings loaded w)) = clips_table w"
  using generate_and_save_keeps_table [of w]
  by (cases "generate_and_save w") (auto simp: ensure_embeddings_def split: sum.splits)

lemma answer_query_results:
  assumes "answer_query q k emb w = (Inr rs, w')"
  shows "\<exists>clips by_id ranked. clips_table w = Inr clips \<and> clips_by_id clips [] = Inr by_id
           \<and> rs = results ranked by_id"
  using assms
  by (auto simp: answer_query_def embeddings_create_def fetch_clips_def
           split: sum.splits list.splits pyobj.splits)

lemma semantic_search_results:
  assumes "semantic_search q k w = (Inr rs, w')"
  shows "\<exists>clips by_id ranked. fetch_clips w = Inr clips \<and> clips_by_id clips [] = Inr by_id
           \<and> rs = results ranked by_id"
proof -
  from assms obtain loaded emb w1 where
    ens: "ensure_embeddings loaded w = (Inr emb, w1)" and aq: "answer_query q k emb w1 = (Inr rs, w')"
    by (auto simp: semantic_search_def split: if_splits sum.splits prod.splits)
  have "clips_table w1 = clips_table w"
    using ensure_keeps_table [of loaded w] ens by simp
  with answer_query_results [OF aq] show ?thesis by (simp add: fetch_clips_def)
qed

text \<open>
  C8: when every row of the store has its \<open>id\<close>, the join raises no error whatever the
  ranking holds; every result is a clip of the store, and the results are exactly the
  ranked entries whose identifier is the \<open>id\<close> of a clip in the store, in ranking order
  with their scores: the other entries are left out. The same holds for \<open>semantic_search\<close>
  as a whole: what it returns are clips that \<open>fetch_clips\<close> gives.
\<close>

theorem orphans_dropped:
  "((\<forall>c\<in>set clips. c ''id'' \<noteq> None) \<longrightarrow>
      (\<exists>by_id. clips_by_id clips [] = Inr by_id
        \<and> (\<forall>r\<in>set (results ranked by_id). clip_data r \<in> set clips)
        \<and> map (\<lambda>r. (clip_data r ''id'', similarity_score r)) (results ranked by_id)
          = map (\<lambda>(i, s). (Some i, s))
              (filter (\<lambda>(i, s). \<exists>c\<in>set clips. c ''id'' = Some i) ranked)))
   \<and> (semantic_search q k w = (Inr rs, w') \<longrightarrow>
        (\<exists>stored. fetch_clips w = Inr stored \<and> (\<forall>r\<in>set rs. clip_data r \<in> set stored)))"
proof (intro conjI impI)
  assume "\<forall>c\<in>set clips. c ''id'' \<noteq> None"
  then obtain by_id where b: "clips_by_id clips [] = Inr by_id"
    using clips_by_id_total [of clips "[]"] by blast
  from results_join [OF b, of ranked] b
  show "\<exists>by_id. clips_by_id clips [] = Inr by_id
        \<and> (\<forall>r\<in>set (results ranked by_id). clip_data r \<in> set clips)
        \<and> map (\<lambda>r. (clip_data r ''id'', similarity_score r)) (results ranked by_id)
          = map (\<lambda>(i, s). (Some i, s))
              (filter (\<lambda>(i, s). \<exists>c\<in>set clips. c ''id'' = Some i) ranked)"
    by blast
next
  assume "semantic_search q k w = (Inr rs, w')"
  from semantic_search_results [OF this] obtain stored by_id ranked' where
    f: "fetch_clips w = Inr stored" and b: "clips_by_id stored [] = Inr by_id"
    and r: "rs = results ranked' by_id" by blast
  from results_join [OF b, of ranked'] f r
  show "\<exists>stored. fetch_clips w = Inr stored \<and> (\<forall>r\<in>set rs. clip_data r \<in> set stored)"
    by blast
qed

lemmas search_eval =
  semantic_search_def world0_def load_embeddings_def
  ensure_embeddings_def generate_and_save_def generate_embeddings_for_all_clips_def
  save_embeddings_def json_dump_def answer_query_def embeddings_create_def provider0_def
  top_results_def cosine_similarity_def cosine_def exact_numpy_def
  sort_by_similarity_def slice_to_def fetch_clips_def clip_c1_def

theorem orphans_dropped_witness:
  "list_all (\<lambda>c. c ''id'' \<noteq> None) [clip_c1]
   \<and> semantic_search ''horns'' 5 world0
       = (Inr [\<lparr>clip_data = clip_c1, similarity_score = Num 1\<rparr>],
          world0\<lparr>provider_calls := [[''horns'']]\<rparr>)
   \<and> (\<exists>stored. fetch_clips world0 = Inr stored
         \<and> (\<forall>r\<in>set [\<lparr>clip_data = clip_c1, similarity_score = Num 1\<rparr>]. clip_data r \<in> set stored))
   \<and> (\<exists>by_id. clips_by_id [clip_c1] [] = Inr by_id
        \<and> (\<forall>r\<in>set (results [(VStr ''gone'', Num 1), (VStr ''c1'', Num 1)] by_id).
               clip_data r \<in> set [clip_c1])
        \<and> map (\<lambda>r. (clip_data r ''id'', similarity_score r))
              (results [(VStr ''gone'', Num 1), (VStr ''c1'', Num 1)] by_id)
          = [(Some (VStr ''c1''), Num 1)])"
proof -
  have h: "\<forall>c\<in>set [clip_c1]. c ''id'' \<noteq> None" by (simp add: clip_c1_def)
  have s: "semantic_search ''horns'' 5 world0
       = (Inr [\<lparr>clip_data = clip_c1, similarity_score = Num 1\<rparr>],
          world0\<lparr>provider_calls := [[''horns'']]\<rparr>)"
    by (simp add: search_eval)
  have f: "filter (\<lambda>(i, s). \<exists>c\<in>set [clip_c1]. c ''id'' = Some i)
             [(VStr ''gone'', Num 1), (VStr ''c1'', Num 1)] = [(VStr ''c1'', Num 1)]"
    by (simp add: clip_c1_def)
  from orphans_dropped [of "[clip_c1]" "[(VStr ''gone'', Num 1), (VStr ''c1'', Num 1)]"
      "''horns''" 5 world0 "[\<lparr>clip_data = clip_c1, similarity_score = Num 1\<rparr>]"
      "world0\<lparr>provider_calls := [[''horns'']]\<rparr>"] h s f
  show ?thesis by simp
qed

section \<open>Properties of the orchestrator\<close>

lemma search_after_load:
  assumes "openai_available w" and "env_truthy (api_key w)" and "load_embeddings w = Inr loaded"
  shows "semantic_search q k w =
    (if obj_truthy loaded then answer_query q k loaded w
     else case generate_and_save w of
            (Inl e, w1) \<Rightarrow> (Inl e, w1)
          | (Inr embeddings, w1) \<Rightarrow> answer_query q k (PDict embeddings) w1)"
  using assms
  by (cases "generate_and_save w")
     (auto simp: semantic_search_def ensure_embeddings_def split: sum.splits)

text \<open>
  C3, as the code has it: a cache file that exists but cannot be opened, decoded or
  parsed is not treated as absent. \<open>load_embeddings\<close> raises, and \<open>semantic_search\<close> ends
  with that error and an unchanged world: no rebuild. The search rebuilds when the file is
  missing or holds a JSON value that Python counts as false (\<open>null\<close>, \<open>false\<close>, \<open>0\<close>, the
  empty string, array or object); a file with any other JSON value is used as loaded.
\<close>

theorem corrupt_cache_propagates:
  assumes "openai_available w" and "env_truthy (api_key w)"
  shows "(embeddings_file w = Some Unreadable \<longrightarrow> semantic_search q k w = (Inl OSError, w))
       \<and> (embeddings_file w = Some Undecodable \<longrightarrow>
            semantic_search q k w = (Inl UnicodeDecodeError, w))
       \<and> (embeddings_file w = Some Unparseable \<longrightarrow>
            semantic_search q k w = (Inl JSONDecodeError, w))
       \<and> (embeddings_file w = None
            \<or> (\<exists>doc. embeddings_file w = Some (Document doc) \<and> \<not> obj_truthy (json_load doc)) \<longrightarrow>
            semantic_search q k w =
              (case generate_and_save w of
                 (Inl e, w1) \<Rightarrow> (Inl e, w1)
               | (Inr embeddings, w1) \<Rightarrow> answer_query q k (PDict embeddings) w1))
       \<and> (\<forall>doc. embeddings_file w = Some (Document doc) \<and> obj_truthy (json_load doc) \<longrightarrow>
            semantic_search q k w = answer_query q k (json_load doc) w)"
proof (intro conjI impI allI)
  assume "embeddings_file w = Some Unreadable"
  then show "semantic_search q k w = (Inl OSError, w)"
    using assms by (simp add: semantic_search_def load_embeddings_def)
next
  assume "embeddings_file w = Some Undecodable"
  then show "semantic_search q k w = (Inl UnicodeDecodeError, w)"
    using assms by (simp add: semantic_search_def load_embeddings_def)
next
  assume "embeddings_file w = Some Unparseable"
  then show "semantic_search q k w = (Inl JSONDecodeError, w)"
    using assms by (simp add: semantic_search_def load_embeddings_def)
next
  assume "embeddings_file w = None
            \<or> (\<exists>doc. embeddings_file w = Some (Document doc) \<and> \<not> obj_truthy (json_load doc))"
  then obtain loaded where "load_embeddings w = Inr loaded" "\<not> obj_truthy loaded"
    by (auto simp: load_embeddings_def)
  then show "semantic_search q k w =
              (case generate_and_save w of
                 (Inl e, w1) \<Rightarrow> (Inl e, w1)
               | (Inr embeddings, w1) \<Rightarrow> answer_query q k (PDict embeddings) w1)"
    using search_after_load [OF assms] by simp
next
  fix doc
  assume "embeddings_file w = Some (Document doc) \<and> obj_truthy (json_load doc)"
  then have "load_embeddings w = Inr (json_load doc)" "obj_truthy (json_load doc)"
    by (simp_all add: load_embeddings_def)
  then show "semantic_search q k w = answer_query q k (json_load doc) w"
    using search_after_load [OF assms] by simp
qed

theorem corrupt_cache_propagates_witness:
  "openai_available (world0\<lparr>embeddings_file := Some Unparseable\<rparr>)
   \<and> env_truthy (api_key (world0\<lparr>embeddings_file := Some Unparseable\<rparr>))
   \<and> embeddings_file (world0\<lparr>embeddings_file := Some Unparseable\<rparr>) = Some Unparseable
   \<and> semantic_search ''horns'' 5 (world0\<lparr>embeddings_file := Some Unparseable\<rparr>)
       = (Inl JSONDecodeError, world0\<lparr>embeddings_file := Some Unparseable\<rparr>)"
proof -
  let ?w = "world0\<lparr>embeddings_file := Some Unparseable\<rparr>"
  have a: "openai_available ?w" by (simp add: world0_def)
  have b: "env_truthy (api_key ?w)" by (simp add: world0_def)
  have c: "embeddings_file ?w = Some Unparseable" by simp
  from corrupt_cache_propagates [OF a b, of "''horns''" 5] a b c show ?thesis by simp
qed

text \<open>
  C3 as stated fails: with an unparseable cache file the search ends with
  \<open>JSONDecodeError\<close>, the file is left as it is and the provider is never called, while
  with no file the same search rebuilds and answers.
\<close>

theorem corrupt_cache_is_fatal:
  "fst (semantic_search ''horns'' 5 (world0\<lparr>embeddings_file := Some Unparseable\<rparr>))
     = Inl JSONDecodeError
   \<and> embeddings_file (snd (semantic_search ''horns'' 5 (world0\<lparr>embeddings_file := Some Unparseable\<rparr>)))
     = Some Unparseable
   \<and> provider_calls (snd (semantic_search ''horns'' 5 (world0\<lparr>embeddings_file := Some Unparseable\<rparr>)))
     = []
   \<and> fst (semantic_search ''horns'' 5 (world0\<lparr>embeddings_file := None\<rparr>))
     = Inr [\<lparr>clip_data = clip_c1, similarity_score = Num 1\<rparr>]"
  by (simp add: search_eval)

text \<open>
  Files that Python reads as a false value are rebuilt like a missing one; a file holding
  a list is not, and the search fails on it after the query has been embedded.
\<close>

lemma null_cache_rebuilds:
  "semantic_search ''horns'' 5 (world0\<lparr>embeddings_file := Some (Document JNull)\<rparr>)
     = (Inr [\<lparr>clip_data = clip_c1, similarity_score = Num 1\<rparr>],
        world0\<lparr>embeddings_file := Some (Document (JObject [(''c1'', [1, 0])])),
               provider_calls := [[''vs Duke | Result: Make''], [''horns'']]\<rparr>)"
  by (simp add: search_eval get_clip_text_representation_def append_if_def clip_get_def py_or_def)

lemma list_cache_fails:
  "semantic_search ''horns'' 5 (world0\<lparr>embeddings_file := Some (Document (JArray 3))\<rparr>)
     = (Inl AttributeError,
        world0\<lparr>embeddings_file := Some (Document (JArray 3)), provider_calls := [[''horns'']]\<rparr>)"
  by (simp add: search_eval)

lemma generate_file_update:
  "generate_embeddings_for_all_clips (w\<lparr>embeddings_file := f\<rparr>)
     = (fst (generate_embeddings_for_all_clips w),
        (snd (generate_embeddings_for_all_clips w))\<lparr>embeddings_file := f\<rparr>)"
  by (simp add: generate_embeddings_for_all_clips_def embeddings_create_def fetch_clips_def
        split: sum.splits prod.splits)

lemma search_absent:
  "semantic_search q k (w\<lparr>embeddings_file := None\<rparr>) =
    (if \<not> openai_available w then (Inl (ImportError ''OpenAI library not available''), w\<lparr>embeddings_file := None\<rparr>)
     else if \<not> env_truthy (api_key w)
       then (Inl (ValueError ''OPENAI_API_KEY environment variable not set''), w\<lparr>embeddings_file := None\<rparr>)
     else case generate_and_save (w\<lparr>embeddings_file := None\<rparr>) of
            (Inl e, w1) \<Rightarrow> (Inl e, w1)
          | (Inr embeddings, w1) \<Rightarrow> answer_query q k (PDict embeddings) w1)"
  by (cases "generate_and_save (w\<lparr>embeddings_file := None\<rparr>)")
     (auto simp: semantic_search_def load_embeddings_def ensure_embeddings_def split: sum.splits)

lemma search_empty:
  "semantic_search q k (w\<lparr>embeddings_file := Some (Document (JObject []))\<rparr>) =
    (if \<not> openai_available w then (Inl (ImportError ''OpenAI library not available''), w\<lparr>embeddings_file := Some (Document (JObject []))\<rparr>)
     else if \<not> env_truthy (api_key w)
       then (Inl (ValueError ''OPENAI_API_KEY environment variable not set''), w\<lparr>embeddings_file := Some (Document (JObject []))\<rparr>)
     else case generate_and_save (w\<lparr>embeddings_file := Some (Document (JObject []))\<rparr>) of
            (Inl e, w1) \<Rightarrow> (Inl e, w1)
          | (Inr embeddings, w1) \<Rightarrow> answer_query q k (PDict embeddings) w1)"
  by (cases "generate_and_save (w\<lparr>embeddings_file := Some (Document (JObject []))\<rparr>)")
     (auto simp: semantic_search_def load_embeddings_def ensure_embeddings_def split: sum.splits)

text \<open>
  C10: a cache file holding the empty mapping is treated like a missing file. The search
  gives the same answer and makes the same provider calls in both cases; and when the
  embeddings can be generated, both end in the same world, whose cache file holds the
  generated embeddings, and the answer is computed from the generated embeddings after
  they have been saved.
\<close>

theorem empty_cache_like_absent:
  "fst (semantic_search q k (w\<lparr>embeddings_file := Some (Document (JObject []))\<rparr>))
     = fst (semantic_search q k (w\<lparr>embeddings_file := None\<rparr>))
   \<and> provider_calls (snd (semantic_search q k (w\<lparr>embeddings_file := Some (Document (JObject []))\<rparr>)))
     = provider_calls (snd (semantic_search q k (w\<lparr>embeddings_file := None\<rparr>)))
   \<and> (openai_available w \<and> env_truthy (api_key w)
        \<and> fst (generate_embeddings_for_all_clips w) = Inr embeddings \<longrightarrow>
        snd (semantic_search q k (w\<lparr>embeddings_file := Some (Document (JObject []))\<rparr>))
          = snd (semantic_search q k (w\<lparr>embeddings_file := None\<rparr>))
      \<and> embeddings_file (snd (semantic_search q k (w\<lparr>embeddings_file := Some (Document (JObject []))\<rparr>)))
          = Some (Document (JObject (json_dump embeddings)))
      \<and> semantic_search q k (w\<lparr>embeddings_file := Some (Document (JObject []))\<rparr>)
          = answer_query q k (PDict embeddings)
              (save_embeddings embeddings (snd (generate_embeddings_for_all_clips w))))"
proof -
  let ?e = "w\<lparr>embeddings_file := Some (Document (JObject []))\<rparr>" and ?a = "w\<lparr>embeddings_file := None\<rparr>"
  obtain r w1 where g: "generate_embeddings_for_all_clips w = (r, w1)"
    by (cases "generate_embeddings_for_all_clips w")
  have ge: "generate_and_save ?e =
      (case r of Inl e \<Rightarrow> (Inl e, w1\<lparr>embeddings_file := Some (Document (JObject []))\<rparr>)
               | Inr d \<Rightarrow> (Inr d, w1\<lparr>embeddings_file := Some (Document (JObject (json_dump d)))\<rparr>))"
    by (simp add: generate_and_save_def generate_file_update g save_embeddings_def split: sum.splits)
  have ga: "generate_and_save ?a =
      (case r of Inl e \<Rightarrow> (Inl e, w1\<lparr>embeddings_file := None\<rparr>)
               | Inr d \<Rightarrow> (Inr d, w1\<lparr>embeddings_file := Some (Document (JObject (json_dump d)))\<rparr>))"
    by (simp add: generate_and_save_def generate_file_update g save_embeddings_def split: sum.splits)
  show ?thesis
  proof (cases r)
    case (Inl e)
    then show ?thesis using g by (simp add: search_absent search_empty ge ga)
  next
    case (Inr d)
    then show ?thesis using g
      by (simp add: search_absent search_empty ge ga answer_query_world save_embeddings_def)
  qed
qed

theorem empty_cache_like_absent_witness:
  "openai_available world0 \<and> env_truthy (api_key world0)
   \<and> fst (generate_embeddings_for_all_clips world0) = Inr [(VStr ''c1'', [1, 0])]
   \<and> fst (semantic_search ''horns'' 5 (world0\<lparr>embeddings_file := Some (Document (JObject []))\<rparr>))
     = fst (semantic_search ''horns'' 5 (world0\<lparr>embeddings_file := None\<rparr>))
   \<and> snd (semantic_search ''horns'' 5 (world0\<lparr>embeddings_file := Some (Document (JObject []))\<rparr>))
     = snd (semantic_search ''horns'' 5 (world0\<lparr>embeddings_file := None\<rparr>))
   \<and> embeddings_file (snd (semantic_search ''horns'' 5 (world0\<lparr>embeddings_file := Some (Document (JObject []))\<rparr>)))
     = Some (Document (JObject [(''c1'', [1, 0])]))
   \<and> fst (semantic_search ''horns'' 5 (world0\<lparr>embeddings_file := Some (Document (JObject []))\<rparr>))
     = Inr [\<lparr>clip_data = clip_c1, similarity_score = Num 1\<rparr>]"
proof -
  have a: "openai_available world0 \<and> env_truthy (api_key world0)" by (simp add: world0_def)
  have g: "fst (generate_embeddings_for_all_clips world0) = Inr [(VStr ''c1'', [1, 0])]"
    by (simp add: generate_embeddings_for_all_clips_def world0_def fetch_clips_def clip_c1_def
          embeddings_create_def provider0_def)
  have d: "json_dump [(VStr ''c1'', [1, 0])] = [(''c1'', [1, 0])]" by (simp add: json_dump_def)
  note t = empty_cache_like_absent [of "''horns''" 5 world0 "[(VStr ''c1'', [1, 0])]"]
  from t have c1: "fst (semantic_search ''horns'' 5 (world0\<lparr>embeddings_file := Some (Document (JObject []))\<rparr>))
     = fst (semantic_search ''horns'' 5 (world0\<lparr>embeddings_file := None\<rparr>))" by (rule conjunct1)
  from t a g have c2: "snd (semantic_search ''horns'' 5 (world0\<lparr>embeddings_file := Some (Document (JObject []))\<rparr>))
     = snd (semantic_search ''horns'' 5 (world0\<lparr>embeddings_file := None\<rparr>))" by blast
  from t a g have "embeddings_file (snd (semantic_search ''horns'' 5 (world0\<lparr>embeddings_file := Some (Document (JObject []))\<rparr>)))
     = Some (Document (JObject (json_dump [(VStr ''c1'', [1, 0])])))" by blast
  then have c3: "embeddings_file (snd (semantic_search ''horns'' 5 (world0\<lparr>embeddings_file := Some (Document (JObject []))\<rparr>)))
     = Some (Document (JObject [(''c1'', [1, 0])]))" by (simp only: d)
  have c4: "fst (semantic_search ''horns'' 5 (world0\<lparr>embeddings_file := Some (Document (JObject []))\<rparr>))
     = Inr [\<lparr>clip_data = clip_c1, similarity_score = Num 1\<rparr>]"
    by (simp add: search_eval)
  from a g c1 c2 c3 c4 show ?thesis by blast
qed

section \<open>Properties of the HTTP endpoint\<close>






end
